theory Spec2Isabelle
  imports Main
begin

section \<open>AddressButtonRow (src/pages/addresses/AddressButtonRow.tsx)\<close>

subsection \<open>Data\<close>

text \<open>
  Modelled from the spec: the declaration of the wallet type (krist/wallets/Wallet) is
  not part of the sources at hand. The component reads one field of a wallet, its
  \<open>address\<close>; every other field lives in the record's extension (\<open>more\<close>), so a statement
  about \<open>'a Wallet_scheme\<close> holds for wallets with any further fields.
\<close>

record Wallet =
  address :: string

text \<open>
  Modelled from the spec: the declaration of the address record (krist/api/lookup) is
  missing as well. Its identifier is the string field \<open>address\<close>; names owned and the
  other metadata live in the extension.
\<close>

record KristAddressWithNames =
  address :: string

text \<open>
  The wallet set is a JavaScript object from keys to wallets. It is kept as the list of
  its entries in enumeration order, and \<open>Object.values\<close> reads the values in that order.
\<close>

type_synonym 'w WalletMap = "(string \<times> 'w) list"

definition Object_values :: "'w WalletMap \<Rightarrow> 'w list" where
  "Object_values wallets = map snd wallets"

subsection \<open>Rendered elements\<close>

datatype icon = SendOutlined | SwapOutlined | UserAddOutlined | EditOutlined

text \<open>
  A call \<open>t(key, args)\<close> of the translation function is kept symbolic: the message key
  and the interpolation arguments.
\<close>

datatype label = Translated string "(string \<times> string) list"

text \<open>
  \<open>Button ty ic l\<close> is \<open><Button type=ty icon=ic>l</Button>\<close> (\<open>ty = None\<close> when the
  attribute is not given); \<open>WalletEditButton w cs\<close> is the edit-flow trigger around its
  children \<open>cs\<close>.
\<close>

datatype 'w element =
    Button "string option" icon label
  | WalletEditButton 'w "'w element list"

subsection \<open>The component\<close>

text \<open>
  \<open>Object.values(wallets).find(w => w.address === address.address)\<close>: the first wallet,
  in enumeration order, whose address is strictly equal to the identifier; \<open>None\<close> is
  JavaScript's \<open>undefined\<close>. On strings \<open>===\<close> is equality of the character sequences.
\<close>

definition myWallet ::
  "'a Wallet_scheme WalletMap \<Rightarrow> 'b KristAddressWithNames_scheme \<Rightarrow> 'a Wallet_scheme option"
where
  "myWallet wallets addr =
     find (\<lambda>w. Wallet.address w = KristAddressWithNames.address addr) (Object_values wallets)"

text \<open>
  The fragment the component returns, as the list of its two children. A wallet is an
  object, hence truthy: the conditionals \<open>myWallet ? _ : _\<close> test whether one was found.
\<close>

definition AddressButtonRow ::
  "'a Wallet_scheme WalletMap \<Rightarrow> 'b KristAddressWithNames_scheme \<Rightarrow> 'a Wallet_scheme element list"
where
  "AddressButtonRow wallets addr =
     [ (case myWallet wallets addr of
          Some w \<Rightarrow>
            Button (Some ''primary'') SwapOutlined
              (Translated ''address.buttonTransferKrist''
                 [(''address'', KristAddressWithNames.address addr)])
        | None \<Rightarrow>
            Button (Some ''primary'') SendOutlined
              (Translated ''address.buttonSendKrist''
                 [(''address'', KristAddressWithNames.address addr)])),
       (case myWallet wallets addr of
          Some w \<Rightarrow>
            WalletEditButton w
              [Button None EditOutlined (Translated ''address.buttonEditWallet'' [])]
        | None \<Rightarrow>
            Button None UserAddOutlined (Translated ''address.buttonAddFriend'' [])) ]"


section \<open>TransactionsTable (pages/transactions/TransactionsTable.tsx)\<close>

subsection \<open>Data\<close>

text \<open>
  Modelled from the spec: the enumeration \<open>LookupTransactionType\<close> (krist/api/lookup) is
  not part of the sources at hand; the component names three of its members.
\<close>

datatype LookupTransactionType = TRANSACTIONS | NAME_HISTORY | NAME_TRANSACTIONS

text \<open>
  \<open>ListingType\<close> is a numeric enumeration (declared in TransactionsPage); the table below
  is keyed by its values 0 to 4, so a listing type is kept as a number.
\<close>

type_synonym ListingType = nat

definition LISTING_TYPE_MAP :: "ListingType \<rightharpoonup> LookupTransactionType" where
  "LISTING_TYPE_MAP =
     [0 \<mapsto> TRANSACTIONS,
      1 \<mapsto> TRANSACTIONS,
      2 \<mapsto> TRANSACTIONS,
      3 \<mapsto> NAME_HISTORY,
      4 \<mapsto> NAME_TRANSACTIONS]"

text \<open>
  Modelled from the spec: the transaction record (krist/api/types). The fields carry the
  suffix \<open>_tx\<close> because \<open>from\<close>, \<open>value\<close> and \<open>id\<close> are taken in Isabelle. An optional
  field that is \<open>null\<close> or \<open>undefined\<close> is \<open>None\<close>. The type tag is the string the
  component compares with \<open>"mined"\<close>, \<open>"name_purchase"\<close> and \<open>"name_a_record"\<close>.
\<close>

record KristTransaction =
  id_tx :: nat
  type_tx :: string
  from_tx :: "string option"
  to_tx :: "string option"
  value_tx :: nat
  name_tx :: "string option"
  metadata_tx :: "string option"
  time_tx :: string

text \<open>
  Modelled from the spec: the response of the lookup call, an ordered sequence of
  transactions with the count and total used for pagination.
\<close>

record LookupTransactionsResponse =
  transactions :: "KristTransaction list"
  count_res :: nat
  total_res :: nat

text \<open>The rejection reason of a failed lookup.\<close>

datatype Error = Error string

text \<open>
  The props of the component. An optional prop that is not passed is \<open>None\<close>. The error
  sink \<open>setError\<close> belongs to the caller: it acts on the caller's state \<open>'x\<close>, never on
  the state of the table.
\<close>

record 'x Props =
  listingType :: ListingType
  refreshingID :: "nat option"
  addresses :: "string list option"
  name :: "string option"
  includeMined :: "bool option"
  setError :: "(Error \<Rightarrow> 'x \<Rightarrow> 'x) option"

text \<open>
  Modelled from the spec: the options of the lookup call (krist/api/lookup), every field
  optional: pagination, sort column and order, \<open>includeMined\<close> and the type filter.
\<close>

record LookupTransactionsOptions =
  limit :: "nat option"
  offset :: "nat option"
  orderBy :: "string option"
  order :: "string option"
  includeMined :: "bool option"
  type :: "LookupTransactionType option"

text \<open>The three \<open>useState\<close> cells of the component.\<close>

record State =
  loading :: bool
  res :: "LookupTransactionsResponse option"
  options :: LookupTransactionsOptions

definition initial_State :: State where
  "initial_State =
     \<lparr> loading = True,
       res = None,
       options = \<lparr> limit = Some 20, offset = Some 0, orderBy = Some ''time'',
                   order = Some ''DESC'', includeMined = None, type = None \<rparr> \<rparr>"

subsection \<open>Promises\<close>

text \<open>
  A settled promise is fulfilled with a value or rejected with a reason. The reactions
  of a chain run one after the other on the world \<open>'w\<close>; a chain is the pair of the
  promise's outcome and the world its reactions have produced so far. None of the
  handlers of the component throws (they are state setters).

  \<^item> \<open>p.then(f)\<close>: on fulfilment \<open>f\<close> runs and the new promise is fulfilled with what
    \<open>f\<close> returns (\<open>undefined\<close> for a setter); a rejection passes through.
  \<^item> \<open>p.catch(h)\<close>: on rejection a callable \<open>h\<close> runs and the new promise is fulfilled;
    when \<open>h\<close> is \<open>undefined\<close> the rejection passes through. A fulfilment passes through.
  \<^item> \<open>p.finally(g)\<close>: \<open>g\<close> runs on either outcome, which is passed on.
\<close>

datatype 'a settled = Fulfilled 'a | Rejected Error

fun promise_then :: "('a \<Rightarrow> 'w \<Rightarrow> 'w) \<Rightarrow> 'a settled \<times> 'w \<Rightarrow> unit settled \<times> 'w" where
  "promise_then f (Fulfilled v, w) = (Fulfilled (), f v w)"
| "promise_then f (Rejected e, w) = (Rejected e, w)"

fun promise_catch ::
  "(Error \<Rightarrow> 'w \<Rightarrow> 'w) option \<Rightarrow> unit settled \<times> 'w \<Rightarrow> unit settled \<times> 'w"
where
  "promise_catch h (Fulfilled v, w) = (Fulfilled v, w)"
| "promise_catch (Some h) (Rejected e, w) = (Fulfilled (), h e w)"
| "promise_catch None (Rejected e, w) = (Rejected e, w)"

fun promise_finally :: "('w \<Rightarrow> 'w) \<Rightarrow> 'a settled \<times> 'w \<Rightarrow> 'a settled \<times> 'w" where
  "promise_finally g (p, w) = (p, g w)"

subsection \<open>State setters\<close>

text \<open>
  The world of the effect is the state of the table together with the caller's state,
  on which the error sink acts.
\<close>

definition setLoading :: "bool \<Rightarrow> State \<times> 'x \<Rightarrow> State \<times> 'x" where
  "setLoading b w = ((fst w)\<lparr>loading := b\<rparr>, snd w)"

definition setRes :: "LookupTransactionsResponse \<Rightarrow> State \<times> 'x \<Rightarrow> State \<times> 'x" where
  "setRes r w = ((fst w)\<lparr>res := Some r\<rparr>, snd w)"

definition call_sink :: "(Error \<Rightarrow> 'x \<Rightarrow> 'x) \<Rightarrow> Error \<Rightarrow> State \<times> 'x \<Rightarrow> State \<times> 'x" where
  "call_sink sink e w = (fst w, sink e (snd w))"

text \<open>A sink that records every invocation, in order: the log of its arguments.\<close>

definition logging_sink :: "Error \<Rightarrow> Error list \<Rightarrow> Error list" where
  "logging_sink e log = log @ [e]"

subsection \<open>The fetch effect\<close>

text \<open>
  \<open>name ? [name] : addresses\<close>: a string is truthy when it is not empty, and a prop
  that was not passed is \<open>undefined\<close>, which is falsy.
\<close>

definition lookup_targets :: "'x Props \<Rightarrow> string list option" where
  "lookup_targets props =
     (case name props of
        Some n \<Rightarrow> if n \<noteq> '''' then Some [n] else addresses props
      | None \<Rightarrow> addresses props)"

text \<open>
  \<open>{ ...options, includeMined, type: LISTING_TYPE_MAP[listingType] }\<close>: the spread copies
  the current options, then the two keys are overwritten (a key read from the table
  that is not there is \<open>undefined\<close>).
\<close>

definition lookup_options :: "'x Props \<Rightarrow> LookupTransactionsOptions \<Rightarrow> LookupTransactionsOptions" where
  "lookup_options props opts =
     opts\<lparr> includeMined := Props.includeMined props,
           type := LISTING_TYPE_MAP (listingType props) \<rparr>"

text \<open>
  The body of the effect up to the call: \<open>setLoading(true)\<close>, then
  \<open>lookupTransactions(targets, options)\<close>. The result is the world after the setter and
  the two arguments of the call.
\<close>

definition effect_start ::
  "'x Props \<Rightarrow> State \<times> 'x \<Rightarrow> (State \<times> 'x) \<times> (string list option \<times> LookupTransactionsOptions)"
where
  "effect_start props w =
     (setLoading True w, (lookup_targets props, lookup_options props (options (fst w))))"

text \<open>
  The chain on the promise of the call, when it settles with \<open>outcome\<close>:
  \<open>.then(setRes).catch(setError).finally(() => setLoading(false))\<close>.
\<close>

definition effect_settle ::
  "'x Props \<Rightarrow> LookupTransactionsResponse settled \<Rightarrow> State \<times> 'x \<Rightarrow> unit settled \<times> (State \<times> 'x)"
where
  "effect_settle props outcome w =
     promise_finally (setLoading False)
       (promise_catch (map_option call_sink (setError props))
          (promise_then setRes (outcome, w)))"

text \<open>One run of the effect whose call settles: the start, then the chain.\<close>

definition useEffect_fetch ::
  "'x Props \<Rightarrow> LookupTransactionsResponse settled \<Rightarrow> State \<times> 'x \<Rightarrow> unit settled \<times> (State \<times> 'x)"
where
  "useEffect_fetch props outcome w = effect_settle props outcome (fst (effect_start props w))"


subsection \<open>Rendering\<close>

text \<open>
  What a column's \<open>render\<close> function returns: a JavaScript value that React shows as
  nothing (\<open>null\<close> or \<open>undefined\<close>, \<open>false\<close>, the empty string), a text, or an element.
  \<open>ContextualAddress c a m wrap\<close> is the address reference with class name \<open>c\<close>, address
  \<open>a\<close>, metadata \<open>m\<close> and the flag \<open>allowWrap\<close>; \<open>TransactionLink i\<close> is the link to the
  detail view of transaction \<open>i\<close>.
\<close>

datatype node =
    JSNull
  | JSFalse
  | JSString string
  | TransactionLink nat
  | TransactionType KristTransaction
  | ContextualAddress string string "string option" bool
  | KristValue nat
  | KristNameLink "string option"
  | TransactionConciseMetadata KristTransaction
  | DateTime string

text \<open>React renders \<open>null\<close>, \<open>undefined\<close>, \<open>false\<close> and the empty string as nothing.\<close>

fun renders_nothing :: "node \<Rightarrow> bool" where
  "renders_nothing JSNull = True"
| "renders_nothing JSFalse = True"
| "renders_nothing (JSString s) = (s = '''')"
| "renders_nothing _ = False"

text \<open>
  \<open>a && b\<close> is \<open>a\<close> when \<open>a\<close> is falsy and \<open>b\<close> otherwise. The first operand of the From
  and To renderers is the field itself: absent, it is returned as it is; the empty
  string is falsy and returned as it is; otherwise the comparisons decide.
\<close>

definition render_from :: "KristTransaction \<Rightarrow> node" where
  "render_from tx =
     (case from_tx tx of
        None \<Rightarrow> JSNull
      | Some from \<Rightarrow>
          if from = '''' then JSString from
          else if \<not> (type_tx tx \<noteq> ''mined'') then JSFalse
          else ContextualAddress ''transactions-table-address'' from (metadata_tx tx) True)"

definition render_to :: "KristTransaction \<Rightarrow> node" where
  "render_to tx =
     (case to_tx tx of
        None \<Rightarrow> JSNull
      | Some to \<Rightarrow>
          if to = '''' then JSString to
          else if \<not> (type_tx tx \<noteq> ''name_purchase'') then JSFalse
          else if \<not> (type_tx tx \<noteq> ''name_a_record'') then JSFalse
          else ContextualAddress ''transactions-table-address'' to (metadata_tx tx) True)"

text \<open>
  The allow-list \<open>TYPES_SHOW_VALUE\<close> (components/transactions/TransactionType) is not part
  of the sources at hand: it is a parameter. \<open>includes\<close> on strings is membership.
\<close>

definition render_value :: "string list \<Rightarrow> KristTransaction \<Rightarrow> node" where
  "render_value TYPES_SHOW_VALUE tx =
     (if type_tx tx \<in> set TYPES_SHOW_VALUE then KristValue (value_tx tx) else JSFalse)"

record column =
  title :: label
  dataIndex :: string
  key :: string
  render :: "KristTransaction \<Rightarrow> node"
  width :: "nat option"
  sorter :: bool
  defaultSortOrder :: "string option"

definition columns :: "string list \<Rightarrow> column list" where
  "columns TYPES_SHOW_VALUE =
     [ \<lparr> title = Translated ''transactions.columnID'' [],
         dataIndex = ''id'', key = ''id'',
         render = (\<lambda>tx. TransactionLink (id_tx tx)),
         width = Some 100, sorter = False, defaultSortOrder = None \<rparr>,
       \<lparr> title = Translated ''transactions.columnType'' [],
         dataIndex = ''type'', key = ''type'',
         render = (\<lambda>tx. TransactionType tx),
         width = None, sorter = False, defaultSortOrder = None \<rparr>,
       \<lparr> title = Translated ''transactions.columnFrom'' [],
         dataIndex = ''from'', key = ''from'',
         render = render_from,
         width = None, sorter = True, defaultSortOrder = None \<rparr>,
       \<lparr> title = Translated ''transactions.columnTo'' [],
         dataIndex = ''to'', key = ''to'',
         render = render_to,
         width = None, sorter = True, defaultSortOrder = None \<rparr>,
       \<lparr> title = Translated ''transactions.columnValue'' [],
         dataIndex = ''value'', key = ''value'',
         render = render_value TYPES_SHOW_VALUE,
         width = Some 100, sorter = True, defaultSortOrder = None \<rparr>,
       \<lparr> title = Translated ''transactions.columnName'' [],
         dataIndex = ''name'', key = ''name'',
         render = (\<lambda>tx. KristNameLink (name_tx tx)),
         width = None, sorter = True, defaultSortOrder = None \<rparr>,
       \<lparr> title = Translated ''transactions.columnMetadata'' [],
         dataIndex = ''metadata'', key = ''metadata'',
         render = (\<lambda>tx. TransactionConciseMetadata tx),
         width = Some 260, sorter = False, defaultSortOrder = None \<rparr>,
       \<lparr> title = Translated ''transactions.columnTime'' [],
         dataIndex = ''time'', key = ''time'',
         render = (\<lambda>tx. DateTime (time_tx tx)),
         width = Some 200, sorter = True, defaultSortOrder = Some ''descend'' \<rparr> ]"

text \<open>
  The props the component passes to the table widget. \<open>onChange\<close> and \<open>pagination\<close> are
  built by helpers of utils/table, which are not part of the sources at hand, and are
  left out. \<open>res?.transactions || []\<close>: without a response the data is the empty list.
\<close>

record Table =
  className :: string
  table_size :: string
  table_loading :: bool
  dataSource :: "KristTransaction list"
  rowKey :: string
  table_columns :: "column list"

definition TransactionsTable :: "string list \<Rightarrow> State \<Rightarrow> Table" where
  "TransactionsTable TYPES_SHOW_VALUE st =
     \<lparr> className = ''transactions-table'',
       table_size = ''small'',
       table_loading = loading st,
       dataSource = (case res st of None \<Rightarrow> [] | Some r \<Rightarrow> transactions r),
       rowKey = ''id'',
       table_columns = columns TYPES_SHOW_VALUE \<rparr>"

text \<open>The cell of the column with key \<open>k\<close> for a transaction, when there is such a column.\<close>

definition cell :: "Table \<Rightarrow> string \<Rightarrow> KristTransaction \<Rightarrow> node option" where
  "cell tbl k tx = map_option (\<lambda>c. render c tx) (find (\<lambda>c. key c = k) (table_columns tbl))"


section \<open>Notions used in the statements\<close>

text \<open>
  Two strings differ only in letter case when they are different and agree once the
  letters A to Z are replaced by a to z; they differ only in whitespace when they are
  different and agree once blanks, tabs and line breaks are removed.
\<close>

definition to_lower :: "char \<Rightarrow> char" where
  "to_lower c =
     (case map_of (zip ''ABCDEFGHIJKLMNOPQRSTUVWXYZ'' ''abcdefghijklmnopqrstuvwxyz'') c of
        Some l \<Rightarrow> l
      | None \<Rightarrow> c)"

definition is_whitespace :: "char \<Rightarrow> bool" where
  "is_whitespace c = (c \<in> set [CHR '' '', CHR 0x09, CHR 0x0A, CHR 0x0D])"

definition differs_only_in_case :: "string \<Rightarrow> string \<Rightarrow> bool" where
  "differs_only_in_case x y = (x \<noteq> y \<and> map to_lower x = map to_lower y)"

definition differs_only_in_whitespace :: "string \<Rightarrow> string \<Rightarrow> bool" where
  "differs_only_in_whitespace x y =
     (x \<noteq> y \<and> filter (\<lambda>c. \<not> is_whitespace c) x = filter (\<lambda>c. \<not> is_whitespace c) y)"

text \<open>Concrete inputs on which the theorems below are exercised.\<close>

definition example_wallets :: "Wallet WalletMap" where
  "example_wallets =
     [(''id-1'', \<lparr> Wallet.address = ''kaaaaaaaaa'' \<rparr>),
      (''id-2'', \<lparr> Wallet.address = ''kbbbbbbbbb'' \<rparr>)]"

definition example_props :: "Error list Props" where
  "example_props =
     \<lparr> listingType = 0, refreshingID = None, addresses = Some [''kaaaaaaaaa''],
       name = None, Props.includeMined = Some True, setError = Some logging_sink \<rparr>"

definition example_tx :: KristTransaction where
  "example_tx =
     \<lparr> id_tx = 7, type_tx = ''transfer'', from_tx = Some ''kaaaaaaaaa'',
       to_tx = Some ''kbbbbbbbbb'', value_tx = 25, name_tx = None,
       metadata_tx = Some ''hello'', time_tx = ''2021-03-01T12:00:00.000Z'' \<rparr>"

definition example_response :: LookupTransactionsResponse where
  "example_response = \<lparr> transactions = [example_tx], count_res = 1, total_res = 1 \<rparr>"


section \<open>Properties of AddressButtonRow\<close>

lemma myWallet_found_iff:
  "(myWallet wallets a \<noteq> None) =
     (\<exists>w\<in>set (Object_values wallets). Wallet.address w = KristAddressWithNames.address a)"
  by (auto simp: myWallet_def find_None_iff)

lemma myWallet_SomeD:
  "myWallet wallets a = Some w \<Longrightarrow>
     w \<in> set (Object_values wallets) \<and> Wallet.address w = KristAddressWithNames.address a"
  unfolding myWallet_def by (auto simp: find_Some_iff)

text \<open>
  Claim C2. For every address record and wallet set: when some wallet's address equals
  the record's identifier, the row is exactly a primary "transfer" button followed by
  the edit-wallet trigger, for a wallet of the set with that address, around an "edit
  wallet" button; when no wallet's address equals it, the row is exactly a primary
  "send" button followed by an "add friend" button.
\<close>

theorem AddressButtonRow_buttons:
  "((\<exists>w\<in>set (Object_values wallets). Wallet.address w = KristAddressWithNames.address a) \<longrightarrow>
      (\<exists>w\<in>set (Object_values wallets). Wallet.address w = KristAddressWithNames.address a \<and>
         AddressButtonRow wallets a =
           [Button (Some ''primary'') SwapOutlined
              (Translated ''address.buttonTransferKrist''
                 [(''address'', KristAddressWithNames.address a)]),
            WalletEditButton w
              [Button None EditOutlined (Translated ''address.buttonEditWallet'' [])]]))
   \<and> ((\<forall>w\<in>set (Object_values wallets). Wallet.address w \<noteq> KristAddressWithNames.address a) \<longrightarrow>
        AddressButtonRow wallets a =
          [Button (Some ''primary'') SendOutlined
             (Translated ''address.buttonSendKrist''
                [(''address'', KristAddressWithNames.address a)]),
           Button None UserAddOutlined (Translated ''address.buttonAddFriend'' [])])"
proof (cases "myWallet wallets a")
  case None
  then have "\<forall>w\<in>set (Object_values wallets). Wallet.address w \<noteq> KristAddressWithNames.address a"
    using myWallet_found_iff [of wallets a] by simp
  with None show ?thesis by (simp add: AddressButtonRow_def)
next
  case (Some w)
  then have "w \<in> set (Object_values wallets)"
    and "Wallet.address w = KristAddressWithNames.address a"
    using myWallet_SomeD by blast+
  with Some show ?thesis by (auto simp: AddressButtonRow_def)
qed

text \<open>
  The theorem at a wallet set of two wallets: an address of the set, and one outside it.
\<close>

theorem AddressButtonRow_buttons_witness:
  "AddressButtonRow example_wallets \<lparr> address = ''kbbbbbbbbb'' \<rparr> =
     [Button (Some ''primary'') SwapOutlined
        (Translated ''address.buttonTransferKrist'' [(''address'', ''kbbbbbbbbb'')]),
      WalletEditButton \<lparr> Wallet.address = ''kbbbbbbbbb'' \<rparr>
        [Button None EditOutlined (Translated ''address.buttonEditWallet'' [])]]
   \<and> AddressButtonRow example_wallets \<lparr> address = ''kccccccccc'' \<rparr> =
     [Button (Some ''primary'') SendOutlined
        (Translated ''address.buttonSendKrist'' [(''address'', ''kccccccccc'')]),
      Button None UserAddOutlined (Translated ''address.buttonAddFriend'' [])]"
  using AddressButtonRow_buttons [of example_wallets "\<lparr> address = ''kbbbbbbbbb'' \<rparr>"]
        AddressButtonRow_buttons [of example_wallets "\<lparr> address = ''kccccccccc'' \<rparr>"]
  by (simp add: example_wallets_def Object_values_def)

text \<open>
  Claim C8. For every pair of address identifier and wallet address, the wallet matches
  (it is the one found in the wallet set that holds just this wallet) if and only if
  the two strings are equal; in a wallet set of any size a wallet is found if and only
  if some wallet's address equals the identifier; and a wallet whose address differs
  from the identifier only in letter case or only in whitespace does not match: the row
  shows the "send" and "add friend" buttons.
\<close>

theorem wallet_match_exact:
  "(myWallet [(k, w)] a = Some w) = (Wallet.address w = KristAddressWithNames.address a)
   \<and> (myWallet [(k, w)] a = None) = (Wallet.address w \<noteq> KristAddressWithNames.address a)
   \<and> (myWallet wallets a \<noteq> None) =
       (\<exists>w'\<in>set (Object_values wallets). Wallet.address w' = KristAddressWithNames.address a)
   \<and> (differs_only_in_case (Wallet.address w) (KristAddressWithNames.address a)
        \<or> differs_only_in_whitespace (Wallet.address w) (KristAddressWithNames.address a) \<longrightarrow>
      myWallet [(k, w)] a = None
      \<and> AddressButtonRow [(k, w)] a =
          [Button (Some ''primary'') SendOutlined
             (Translated ''address.buttonSendKrist''
                [(''address'', KristAddressWithNames.address a)]),
           Button None UserAddOutlined (Translated ''address.buttonAddFriend'' [])])"
proof -
  have one: "myWallet [(k, w)] a =
      (if Wallet.address w = KristAddressWithNames.address a then Some w else None)"
    by (simp add: myWallet_def Object_values_def)
  have many: "(myWallet wallets a \<noteq> None) =
      (\<exists>w'\<in>set (Object_values wallets). Wallet.address w' = KristAddressWithNames.address a)"
    by (rule myWallet_found_iff)
  have differ: "Wallet.address w \<noteq> KristAddressWithNames.address a"
    if "differs_only_in_case (Wallet.address w) (KristAddressWithNames.address a)
        \<or> differs_only_in_whitespace (Wallet.address w) (KristAddressWithNames.address a)"
    using that by (auto simp: differs_only_in_case_def differs_only_in_whitespace_def)
  show ?thesis
    using one many differ by (simp add: AddressButtonRow_def)
qed

text \<open>
  The theorem at a wallet with address \<open>kAAAAAAAAA\<close> against the identifier
  \<open>kaaaaaaaaa\<close> (letter case), and at a wallet with address \<open>kaaaaaaaaa\<close> followed by a
  blank against the same identifier (whitespace).
\<close>

theorem wallet_match_exact_witness:
  "differs_only_in_case ''kAAAAAAAAA'' ''kaaaaaaaaa''
   \<and> myWallet [(''id-1'', \<lparr> Wallet.address = ''kAAAAAAAAA'' \<rparr>)] \<lparr> address = ''kaaaaaaaaa'' \<rparr> = None
   \<and> differs_only_in_whitespace ''kaaaaaaaaa '' ''kaaaaaaaaa''
   \<and> myWallet [(''id-1'', \<lparr> Wallet.address = ''kaaaaaaaaa '' \<rparr>)] \<lparr> address = ''kaaaaaaaaa'' \<rparr> = None
   \<and> myWallet [(''id-1'', \<lparr> Wallet.address = ''kaaaaaaaaa'' \<rparr>)] \<lparr> address = ''kaaaaaaaaa'' \<rparr>
       = Some \<lparr> Wallet.address = ''kaaaaaaaaa'' \<rparr>"
proof -
  have c: "differs_only_in_case ''kAAAAAAAAA'' ''kaaaaaaaaa''"
    by (simp add: differs_only_in_case_def to_lower_def)
  have s: "differs_only_in_whitespace ''kaaaaaaaaa '' ''kaaaaaaaaa''"
    by (simp add: differs_only_in_whitespace_def is_whitespace_def)
  have n1: "myWallet [(''id-1'', \<lparr> Wallet.address = ''kAAAAAAAAA'' \<rparr>)]
              \<lparr> address = ''kaaaaaaaaa'' \<rparr> = None"
    using c wallet_match_exact [of "''id-1''" "\<lparr> Wallet.address = ''kAAAAAAAAA'' \<rparr>"
        "\<lparr> address = ''kaaaaaaaaa'' \<rparr>" example_wallets]
    by simp
  have n2: "myWallet [(''id-1'', \<lparr> Wallet.address = ''kaaaaaaaaa '' \<rparr>)]
              \<lparr> address = ''kaaaaaaaaa'' \<rparr> = None"
    using s wallet_match_exact [of "''id-1''" "\<lparr> Wallet.address = ''kaaaaaaaaa '' \<rparr>"
        "\<lparr> address = ''kaaaaaaaaa'' \<rparr>" example_wallets]
    by simp
  have y: "myWallet [(''id-1'', \<lparr> Wallet.address = ''kaaaaaaaaa'' \<rparr>)]
              \<lparr> address = ''kaaaaaaaaa'' \<rparr> = Some \<lparr> Wallet.address = ''kaaaaaaaaa'' \<rparr>"
    using wallet_match_exact [of "''id-1''" "\<lparr> Wallet.address = ''kaaaaaaaaa'' \<rparr>"
        "\<lparr> address = ''kaaaaaaaaa'' \<rparr>" example_wallets]
    by simp
  show ?thesis
    using c s n1 n2 y by (simp only: simp_thms)
qed


section \<open>Properties of TransactionsTable\<close>

subsection \<open>The fetch effect\<close>

text \<open>
  Claim C1. For every fetch issued by the table that rejects, with an error sink
  supplied. The effect has set \<open>loading\<close> to true when it issued the call. Whatever the
  state of the table and of the caller when the rejection arrives (other fetches of the
  table may have been issued or have settled in between, since the effect cancels
  nothing): the chain ends fulfilled, the caller's state is the one the sink produces
  when it is applied, once, to the rejection reason, \<open>loading\<close> is false, and \<open>res\<close>
  and \<open>options\<close> are what they were when the rejection arrived. In particular, when
  nothing else happens between the call and its rejection, \<open>res\<close> has the value it had
  before the fetch.
\<close>

theorem fetch_rejected_calls_error_sink_once:
  assumes "setError props = Some sink"
  shows "loading (fst (fst (effect_start props (st0, x0)))) = True
       \<and> effect_settle props (Rejected e) (st, x)
           = (Fulfilled (), (st\<lparr>loading := False\<rparr>, sink e x))
       \<and> snd (snd (effect_settle props (Rejected e) (st, x))) = sink e x
       \<and> loading (fst (snd (effect_settle props (Rejected e) (st, x)))) = False
       \<and> res (fst (snd (effect_settle props (Rejected e) (st, x)))) = res st
       \<and> options (fst (snd (effect_settle props (Rejected e) (st, x)))) = options st
       \<and> snd (snd (useEffect_fetch props (Rejected e) (st, x))) = sink e x
       \<and> loading (fst (snd (useEffect_fetch props (Rejected e) (st, x)))) = False
       \<and> res (fst (snd (useEffect_fetch props (Rejected e) (st, x)))) = res st
       \<and> options (fst (snd (useEffect_fetch props (Rejected e) (st, x)))) = options st"
proof -
  have start: "loading (fst (fst (effect_start props (st0, x0)))) = True"
    by (simp add: effect_start_def setLoading_def)
  have settle: "effect_settle props (Rejected e) (s, y)
      = (Fulfilled (), (s\<lparr>loading := False\<rparr>, sink e y))" for s y
    using assms by (simp add: effect_settle_def setLoading_def call_sink_def)
  have run: "useEffect_fetch props (Rejected e) (st, x)
      = (Fulfilled (), (st\<lparr>loading := False\<rparr>, sink e x))"
    by (simp add: useEffect_fetch_def effect_start_def setLoading_def settle)
  show ?thesis
    by (simp add: start settle run)
qed

text \<open>
  The theorem with the sink that logs its invocations, on two overlapping fetches: the
  first is issued on the first render, the second is issued and resolves, then the
  first rejects. The log, which held an earlier error, gains the reason once; the
  response of the second fetch is still there; \<open>loading\<close> is false.
\<close>

theorem fetch_rejected_calls_error_sink_once_witness:
  "setError example_props = Some logging_sink
   \<and> snd (effect_settle example_props (Fulfilled example_response)
        (fst (effect_start example_props
           (fst (effect_start example_props (initial_State, [Error ''earlier'']))))))
       = (initial_State\<lparr>loading := False, res := Some example_response\<rparr>, [Error ''earlier''])
   \<and> effect_settle example_props (Rejected (Error ''timeout''))
        (initial_State\<lparr>loading := False, res := Some example_response\<rparr>, [Error ''earlier''])
       = (Fulfilled (),
          (initial_State\<lparr>loading := False, res := Some example_response\<rparr>,
           [Error ''earlier'', Error ''timeout'']))
   \<and> res (fst (snd (effect_settle example_props (Rejected (Error ''timeout''))
        (initial_State\<lparr>loading := False, res := Some example_response\<rparr>, [Error ''earlier'']))))
       = Some example_response
   \<and> snd (snd (useEffect_fetch example_props (Rejected (Error ''timeout''))
        (initial_State, []))) = [Error ''timeout'']"
proof -
  have h: "setError example_props = Some logging_sink"
    by (simp add: example_props_def)
  have overlap: "snd (effect_settle example_props (Fulfilled example_response)
        (fst (effect_start example_props
           (fst (effect_start example_props (initial_State, [Error ''earlier'']))))))
       = (initial_State\<lparr>loading := False, res := Some example_response\<rparr>, [Error ''earlier''])"
    by (simp add: effect_settle_def effect_start_def setLoading_def setRes_def h)
  have late: "effect_settle example_props (Rejected (Error ''timeout''))
        (initial_State\<lparr>loading := False, res := Some example_response\<rparr>, [Error ''earlier''])
       = (Fulfilled (),
          (initial_State\<lparr>loading := False, res := Some example_response\<rparr>,
           [Error ''earlier'', Error ''timeout'']))"
    using fetch_rejected_calls_error_sink_once [OF h, of initial_State "[]"
        "Error ''timeout''" "initial_State\<lparr>loading := False, res := Some example_response\<rparr>"
        "[Error ''earlier'']"]
    by (simp add: logging_sink_def)
  have alone: "snd (snd (useEffect_fetch example_props (Rejected (Error ''timeout''))
        (initial_State, []))) = [Error ''timeout'']"
    using fetch_rejected_calls_error_sink_once [OF h, of initial_State "[]"
        "Error ''timeout''" initial_State "[]"]
    by (simp add: logging_sink_def)
  show ?thesis
    using h overlap late alone by simp
qed

text \<open>
  Claim C10. For every fetch issued by the table, \<open>loading\<close> is false once the fetch has
  settled, whether it resolved or rejected and whether or not an error sink was
  supplied. Without a sink the rejection is not consumed (the chain's promise stays
  rejected with the same reason) and the last handler has run all the same.
\<close>

theorem loading_false_when_settled:
  "loading (fst (snd (effect_settle props outcome w))) = False
   \<and> loading (fst (snd (useEffect_fetch props outcome w))) = False
   \<and> (setError props = None \<longrightarrow>
        effect_settle props (Rejected e) w = (Rejected e, setLoading False w))"
  by (cases outcome; cases "setError props")
     (simp_all add: useEffect_fetch_def effect_settle_def effect_start_def setLoading_def
        call_sink_def setRes_def)

theorem loading_false_when_settled_witness:
  "setError (example_props\<lparr>setError := None\<rparr>) = None
   \<and> effect_settle (example_props\<lparr>setError := None\<rparr>) (Rejected (Error ''timeout''))
        (initial_State, [])
       = (Rejected (Error ''timeout''), (initial_State\<lparr>loading := False\<rparr>, []))
   \<and> loading (fst (snd (useEffect_fetch (example_props\<lparr>setError := None\<rparr>)
        (Fulfilled example_response) (initial_State, [])))) = False"
  using loading_false_when_settled [of "example_props\<lparr>setError := None\<rparr>"
      "Fulfilled example_response" "(initial_State, [])" "Error ''timeout''"]
  by (simp add: setLoading_def)


subsection \<open>The arguments of the lookup call\<close>

text \<open>
  Claim C3. For each of the three generic listing types, encoded 0, 1 and 2, the type
  filter among the options passed to the lookup call is the generic transactions type;
  for listing type 3 it is the name-history type and for listing type 4 the
  name-transactions type.
\<close>

theorem listing_type_filter:
  "(listingType props \<in> {0, 1, 2} \<longrightarrow>
      type (snd (snd (effect_start props w))) = Some TRANSACTIONS)
   \<and> (listingType props = 3 \<longrightarrow>
      type (snd (snd (effect_start props w))) = Some NAME_HISTORY)
   \<and> (listingType props = 4 \<longrightarrow>
      type (snd (snd (effect_start props w))) = Some NAME_TRANSACTIONS)"
  by (auto simp: effect_start_def lookup_options_def LISTING_TYPE_MAP_def)

theorem listing_type_filter_witness:
  "type (snd (snd (effect_start (example_props\<lparr>listingType := 0\<rparr>) (initial_State, []))))
     = Some TRANSACTIONS
   \<and> type (snd (snd (effect_start (example_props\<lparr>listingType := 1\<rparr>) (initial_State, []))))
     = Some TRANSACTIONS
   \<and> type (snd (snd (effect_start (example_props\<lparr>listingType := 2\<rparr>) (initial_State, []))))
     = Some TRANSACTIONS
   \<and> type (snd (snd (effect_start (example_props\<lparr>listingType := 3\<rparr>) (initial_State, []))))
     = Some NAME_HISTORY
   \<and> type (snd (snd (effect_start (example_props\<lparr>listingType := 4\<rparr>) (initial_State, []))))
     = Some NAME_TRANSACTIONS"
  using listing_type_filter [of "example_props\<lparr>listingType := 0\<rparr>" "(initial_State, [])"]
        listing_type_filter [of "example_props\<lparr>listingType := 1\<rparr>" "(initial_State, [])"]
        listing_type_filter [of "example_props\<lparr>listingType := 2\<rparr>" "(initial_State, [])"]
        listing_type_filter [of "example_props\<lparr>listingType := 3\<rparr>" "(initial_State, [])"]
        listing_type_filter [of "example_props\<lparr>listingType := 4\<rparr>" "(initial_State, [])"]
  by simp

text \<open>
  Claim C7, as stated: the targets passed to the lookup call are the single-element list
  \<open>[name]\<close> whenever the \<open>name\<close> prop is present. It fails for the name \<open>""\<close>: the prop
  is present, and the targets are the \<open>addresses\<close> prop.
\<close>

theorem lookup_targets_present_name_counterexample:
  "fst (snd (effect_start
      \<lparr> listingType = 0, refreshingID = None, addresses = Some [''kaaaaaaaaa''],
        name = Some '''', Props.includeMined = None, setError = None \<rparr>
      (initial_State, ())))
     = Some [''kaaaaaaaaa'']
   \<and> Some [''kaaaaaaaaa''] \<noteq> Some ['''']"
  by (simp add: effect_start_def lookup_targets_def)

text \<open>
  Claim C7, amended. For every fetch issued by the table, the targets passed to the
  lookup call are the single-element list \<open>[name]\<close> when the \<open>name\<close> prop is present and
  not the empty string, and otherwise the \<open>addresses\<close> prop; the options passed carry
  the \<open>includeMined\<close> prop and the limit, offset, sort column and sort order of the
  current options.
\<close>

theorem lookup_call_arguments:
  "(\<forall>n. name props = Some n \<and> n \<noteq> '''' \<longrightarrow> fst (snd (effect_start props w)) = Some [n])
   \<and> (name props = None \<or> name props = Some '''' \<longrightarrow>
        fst (snd (effect_start props w)) = addresses props)
   \<and> includeMined (snd (snd (effect_start props w))) = Props.includeMined props
   \<and> limit (snd (snd (effect_start props w))) = limit (options (fst w))
   \<and> offset (snd (snd (effect_start props w))) = offset (options (fst w))
   \<and> orderBy (snd (snd (effect_start props w))) = orderBy (options (fst w))
   \<and> order (snd (snd (effect_start props w))) = order (options (fst w))"
  by (auto simp: effect_start_def lookup_targets_def lookup_options_def)

theorem lookup_call_arguments_witness:
  "snd (effect_start (example_props\<lparr>name := Some ''example''\<rparr>) (initial_State, []))
     = (Some [''example''],
        \<lparr> limit = Some 20, offset = Some 0, orderBy = Some ''time'', order = Some ''DESC'',
          includeMined = Some True, type = Some TRANSACTIONS \<rparr>)
   \<and> fst (snd (effect_start example_props (initial_State, []))) = Some [''kaaaaaaaaa'']"
proof -
  have t1: "fst (snd (effect_start (example_props\<lparr>name := Some ''example''\<rparr>)
      (initial_State, []))) = Some [''example'']"
    using lookup_call_arguments [of "example_props\<lparr>name := Some ''example''\<rparr>"
        "(initial_State, [])"]
    by simp
  have t2: "fst (snd (effect_start example_props (initial_State, []))) = addresses example_props"
    using lookup_call_arguments [of example_props "(initial_State, [])"]
    by (simp add: example_props_def)
  have o1: "snd (snd (effect_start (example_props\<lparr>name := Some ''example''\<rparr>)
      (initial_State, [])))
     = \<lparr> limit = Some 20, offset = Some 0, orderBy = Some ''time'', order = Some ''DESC'',
         includeMined = Some True, type = Some TRANSACTIONS \<rparr>"
    by (simp add: effect_start_def lookup_options_def initial_State_def example_props_def
        LISTING_TYPE_MAP_def)
  show ?thesis
    using t1 t2 o1 by (simp add: prod_eq_iff example_props_def)
qed

text \<open>
  Claim C9. When the \<open>name\<close> prop is the empty string, the targets passed to the lookup
  call are the \<open>addresses\<close> prop: absent when \<open>addresses\<close> is absent, and never the list
  \<open>[""]\<close> made of the name (the targets are \<open>[""]\<close> only if \<open>addresses\<close> itself is).
\<close>

theorem empty_name_falls_back_to_addresses:
  assumes "name props = Some ''''"
  shows "fst (snd (effect_start props w)) = addresses props
       \<and> (addresses props = None \<longrightarrow> fst (snd (effect_start props w)) = None)
       \<and> (addresses props \<noteq> Some [''''] \<longrightarrow> fst (snd (effect_start props w)) \<noteq> Some [''''])"
  using assms by (simp add: effect_start_def lookup_targets_def)

theorem empty_name_falls_back_to_addresses_witness:
  "name (example_props\<lparr>name := Some ''''\<rparr>) = Some ''''
   \<and> fst (snd (effect_start (example_props\<lparr>name := Some ''''\<rparr>) (initial_State, [])))
       = Some [''kaaaaaaaaa'']
   \<and> fst (snd (effect_start (example_props\<lparr>name := Some '''', addresses := None\<rparr>)
        (initial_State, []))) = None"
proof -
  have h1: "name (example_props\<lparr>name := Some ''''\<rparr>) = Some ''''"
    by simp
  have h2: "name (example_props\<lparr>name := Some '''', addresses := None\<rparr>) = Some ''''"
    by simp
  show ?thesis
    using h1
      empty_name_falls_back_to_addresses [OF h1, of "(initial_State, [])"]
      empty_name_falls_back_to_addresses [OF h2, of "(initial_State, [])"]
    by (simp add: example_props_def)
qed


subsection \<open>The first render\<close>

text \<open>
  Claim C6. On the first render the state is: \<open>loading\<close> true, no response, and the
  options limit 20, offset 0, ordered by time, descending. The table is then given the
  loading flag and the empty data sequence; the only column with a default sort order
  is the time column, descending. Issuing the first fetch leaves this state as it is,
  so it is the state until a fetch settles.
\<close>

theorem first_render_state:
  "loading initial_State = True
   \<and> res initial_State = None
   \<and> options initial_State =
       \<lparr> limit = Some 20, offset = Some 0, orderBy = Some ''time'', order = Some ''DESC'',
         includeMined = None, type = None \<rparr>
   \<and> table_loading (TransactionsTable T initial_State) = True
   \<and> dataSource (TransactionsTable T initial_State) = []
   \<and> [(key c, defaultSortOrder c). c \<leftarrow> table_columns (TransactionsTable T initial_State),
        defaultSortOrder c \<noteq> None] = [(''time'', Some ''descend'')]
   \<and> fst (effect_start props (initial_State, x)) = (initial_State, x)"
  by (simp add: initial_State_def TransactionsTable_def columns_def effect_start_def
      setLoading_def)

subsection \<open>The cells\<close>

lemma cell_from: "cell (TransactionsTable T st) ''from'' tx = Some (render_from tx)"
  by (simp add: cell_def TransactionsTable_def columns_def)

lemma cell_to: "cell (TransactionsTable T st) ''to'' tx = Some (render_to tx)"
  by (simp add: cell_def TransactionsTable_def columns_def)

lemma cell_value: "cell (TransactionsTable T st) ''value'' tx = Some (render_value T tx)"
  by (simp add: cell_def TransactionsTable_def columns_def)

text \<open>
  Claim C4, as stated: for a type other than "mined" the From cell is an address
  reference whenever the \<open>from\<close> field is present (and likewise for To). It fails for a
  transfer whose \<open>from\<close> is the empty string: the field is present and the cell is the
  empty string, which renders nothing.
\<close>

theorem from_cell_present_field_counterexample:
  "cell (TransactionsTable [''transfer'', ''mined''] initial_State) ''from''
     \<lparr> id_tx = 7, type_tx = ''transfer'', from_tx = Some '''', to_tx = Some ''kbbbbbbbbb'',
       value_tx = 25, name_tx = None, metadata_tx = None,
       time_tx = ''2021-03-01T12:00:00.000Z'' \<rparr>
     = Some (JSString '''')
   \<and> renders_nothing (JSString '''')"
  by (simp add: cell_from render_from_def)

text \<open>
  Claim C4, amended. For every transaction rendered by the table: if its type is
  "mined" the From cell renders nothing; if its type is "name_purchase" or
  "name_a_record" the To cell renders nothing; for other types the From (To) cell is an
  address reference to the \<open>from\<close> (\<open>to\<close>) field, with the transaction's metadata, when
  the field is present and not the empty string; and a cell whose field is absent or
  the empty string renders nothing.
\<close>

theorem from_to_cells:
  "cell (TransactionsTable T st) ''from'' tx = Some (render_from tx)
   \<and> cell (TransactionsTable T st) ''to'' tx = Some (render_to tx)
   \<and> (type_tx tx = ''mined'' \<longrightarrow> renders_nothing (render_from tx))
   \<and> (type_tx tx = ''name_purchase'' \<or> type_tx tx = ''name_a_record'' \<longrightarrow>
        renders_nothing (render_to tx))
   \<and> (\<forall>a. type_tx tx \<noteq> ''mined'' \<and> from_tx tx = Some a \<and> a \<noteq> '''' \<longrightarrow>
        render_from tx = ContextualAddress ''transactions-table-address'' a (metadata_tx tx) True)
   \<and> (\<forall>a. type_tx tx \<noteq> ''name_purchase'' \<and> type_tx tx \<noteq> ''name_a_record''
          \<and> to_tx tx = Some a \<and> a \<noteq> '''' \<longrightarrow>
        render_to tx = ContextualAddress ''transactions-table-address'' a (metadata_tx tx) True)
   \<and> (from_tx tx = None \<or> from_tx tx = Some '''' \<longrightarrow> renders_nothing (render_from tx))
   \<and> (to_tx tx = None \<or> to_tx tx = Some '''' \<longrightarrow> renders_nothing (render_to tx))"
proof -
  have mined: "renders_nothing (render_from tx)" if "type_tx tx = ''mined''"
    using that by (simp add: render_from_def split: option.splits)
  have names: "renders_nothing (render_to tx)"
    if "type_tx tx = ''name_purchase'' \<or> type_tx tx = ''name_a_record''"
    using that by (auto simp: render_to_def split: option.splits)
  have from_ref: "render_from tx =
      ContextualAddress ''transactions-table-address'' a (metadata_tx tx) True"
    if "type_tx tx \<noteq> ''mined''" "from_tx tx = Some a" "a \<noteq> ''''" for a
    using that by (simp add: render_from_def)
  have to_ref: "render_to tx =
      ContextualAddress ''transactions-table-address'' a (metadata_tx tx) True"
    if "type_tx tx \<noteq> ''name_purchase''" "type_tx tx \<noteq> ''name_a_record''"
      "to_tx tx = Some a" "a \<noteq> ''''" for a
    using that by (simp add: render_to_def)
  have from_absent: "renders_nothing (render_from tx)"
    if "from_tx tx = None \<or> from_tx tx = Some ''''"
    using that by (auto simp: render_from_def)
  have to_absent: "renders_nothing (render_to tx)"
    if "to_tx tx = None \<or> to_tx tx = Some ''''"
    using that by (auto simp: render_to_def)
  show ?thesis
    using mined names from_ref to_ref from_absent to_absent cell_from cell_to
    by blast
qed

text \<open>
  The theorem at a transfer between two addresses, at the same transaction as a mined
  reward and as a name purchase, and at a transfer without a \<open>from\<close> field.
\<close>

theorem from_to_cells_witness:
  "render_from example_tx =
     ContextualAddress ''transactions-table-address'' ''kaaaaaaaaa'' (Some ''hello'') True
   \<and> render_to example_tx =
     ContextualAddress ''transactions-table-address'' ''kbbbbbbbbb'' (Some ''hello'') True
   \<and> renders_nothing (render_from (example_tx\<lparr>type_tx := ''mined''\<rparr>))
   \<and> renders_nothing (render_to (example_tx\<lparr>type_tx := ''name_purchase''\<rparr>))
   \<and> renders_nothing (render_to (example_tx\<lparr>type_tx := ''name_a_record''\<rparr>))
   \<and> renders_nothing (render_from (example_tx\<lparr>from_tx := None\<rparr>))
   \<and> renders_nothing (render_to (example_tx\<lparr>to_tx := Some ''''\<rparr>))"
proof -
  have a: "render_from example_tx =
      ContextualAddress ''transactions-table-address'' ''kaaaaaaaaa'' (Some ''hello'') True"
    and b: "render_to example_tx =
      ContextualAddress ''transactions-table-address'' ''kbbbbbbbbb'' (Some ''hello'') True"
    using from_to_cells [of "[]" initial_State example_tx]
    by (simp_all add: example_tx_def)
  have c: "renders_nothing (render_from (example_tx\<lparr>type_tx := ''mined''\<rparr>))"
    using from_to_cells [of "[]" initial_State "example_tx\<lparr>type_tx := ''mined''\<rparr>"]
    by simp
  have d: "renders_nothing (render_to (example_tx\<lparr>type_tx := ''name_purchase''\<rparr>))"
    using from_to_cells [of "[]" initial_State "example_tx\<lparr>type_tx := ''name_purchase''\<rparr>"]
    by simp
  have e: "renders_nothing (render_to (example_tx\<lparr>type_tx := ''name_a_record''\<rparr>))"
    using from_to_cells [of "[]" initial_State "example_tx\<lparr>type_tx := ''name_a_record''\<rparr>"]
    by simp
  have f: "renders_nothing (render_from (example_tx\<lparr>from_tx := None\<rparr>))"
    using from_to_cells [of "[]" initial_State "example_tx\<lparr>from_tx := None\<rparr>"]
    by simp
  have g: "renders_nothing (render_to (example_tx\<lparr>to_tx := Some ''''\<rparr>))"
    using from_to_cells [of "[]" initial_State "example_tx\<lparr>to_tx := Some ''''\<rparr>"]
    by simp
  show ?thesis
    using a b c d e f g by (simp only: simp_thms)
qed

text \<open>
  Claim C5. For every transaction rendered by the table and every allow-list
  \<open>TYPES_SHOW_VALUE\<close>: the Value cell shows something if and only if the transaction's
  type is a member of the allow-list, and it is then the transaction's value; for a
  type outside the allow-list the cell renders nothing.
\<close>

theorem value_cell_iff_allow_list:
  "cell (TransactionsTable T st) ''value'' tx = Some (render_value T tx)
   \<and> (\<not> renders_nothing (render_value T tx)) = (type_tx tx \<in> set T)
   \<and> (render_value T tx = KristValue (value_tx tx)) = (type_tx tx \<in> set T)
   \<and> (type_tx tx \<notin> set T \<longrightarrow> renders_nothing (render_value T tx))"
  by (simp add: cell_value render_value_def)

theorem value_cell_iff_allow_list_witness:
  "cell (TransactionsTable [''transfer'', ''mined''] initial_State) ''value'' example_tx
     = Some (KristValue 25)
   \<and> ''name_transfer'' \<notin> set [''transfer'', ''mined'']
   \<and> renders_nothing (render_value [''transfer'', ''mined'']
        (example_tx\<lparr>type_tx := ''name_transfer''\<rparr>))"
proof -
  have h: "''name_transfer'' \<notin> set [''transfer'', ''mined'']"
    by simp
  have v: "render_value [''transfer'', ''mined''] example_tx = KristValue 25"
    using value_cell_iff_allow_list [of "[''transfer'', ''mined'']" initial_State example_tx]
    by (simp add: example_tx_def)
  have c: "cell (TransactionsTable [''transfer'', ''mined''] initial_State) ''value'' example_tx
      = Some (render_value [''transfer'', ''mined''] example_tx)"
    using value_cell_iff_allow_list [of "[''transfer'', ''mined'']" initial_State example_tx]
    by (simp only: simp_thms)
  have n: "renders_nothing (render_value [''transfer'', ''mined'']
      (example_tx\<lparr>type_tx := ''name_transfer''\<rparr>))"
    using h value_cell_iff_allow_list [of "[''transfer'', ''mined'']" initial_State
        "example_tx\<lparr>type_tx := ''name_transfer''\<rparr>"]
    by simp
  show ?thesis
    using h v c n by (simp only: simp_thms)
qed

end
